theory Spec2Isabelle
  imports Complex_Main "HOL-Library.AList"
begin

section \<open>Data model\<close>

text \<open>
  The build pipeline of ggplot works on pandas objects. A cell value is an integer, a
  finite float, one of the two infinite floats, a string, a boolean or the missing value
  (\<open>NA\<close>, which stands for \<open>NaN\<close> and \<open>None\<close>); a \<open>Series\<close> is a typed sequence of cells; a
  \<open>DataFrame\<close> is an ordered collection of named columns together with its row
  count (\<open>len(data)\<close>), which pandas keeps even when there is no column.
\<close>

datatype val =
    IntVal int | NumVal real | PosInfVal | NegInfVal | StrVal string | BoolVal bool | NA

text \<open>
  Modelled from the spec: the tables \<open>discrete_dtypes\<close> and \<open>continuous_dtypes\<close>
  of \<open>ggplot.utils\<close> are imported by \<open>layer.py\<close> and \<open>scale_xy.py\<close> but are not part of
  the sources at hand. The spec (4.3) says that a column is discrete when its element type
  is categorical, boolean or string, and continuous when it is numeric. \<open>Datetime64\<close>
  stands for an element type that is in neither table, so that the \<open>else\<close> branches of
  the code stay visible.
\<close>

datatype dtype = Category | Object | Bool | Int64 | Float64 | Datetime64

definition discrete_dtypes :: "dtype set" where
  "discrete_dtypes = {Category, Object, Bool}"

definition continuous_dtypes :: "dtype set" where
  "continuous_dtypes = {Int64, Float64}"

record series =
  dtype :: dtype
  vals :: "val list"

record table =
  nrows :: nat
  columns :: "(string \<times> series) list"

text \<open>\<open>pd.DataFrame()\<close>: no column and no row.\<close>

definition DataFrame :: table where
  "DataFrame = \<lparr>nrows = 0, columns = []\<rparr>"

text \<open>\<open>name in data\<close>, \<open>data[name]\<close> and \<open>data[name] = col\<close>.\<close>

definition has_column :: "table \<Rightarrow> string \<Rightarrow> bool" where
  "has_column data name = (name \<in> fst ` set (columns data))"

definition get_column :: "table \<Rightarrow> string \<Rightarrow> series option" where
  "get_column data name = map_of (columns data) name"

definition set_column :: "table \<Rightarrow> string \<Rightarrow> series \<Rightarrow> table" where
  "set_column data name col = data\<lparr>columns := AList.update name col (columns data)\<rparr>"

text \<open>
  Every failure of the pipeline is a \<open>GgplotError\<close> carrying a message; the constructors
  below name the messages as the spec (7) does.
  \<^item> \<open>DataLengthError\<close>: "Aesthetics must either be length one, or the same length as the data";
  \<^item> \<open>UnknownAestheticError ae\<close>: "Do not know how to deal with aesthetic 'ae'";
  \<^item> \<open>MissingAestheticError name missing\<close>: "name requires the following missing
    aesthetics: missing";
  \<^item> \<open>UnresolvedScaleError\<close>: "Lost, do not know what the limits are.".

  \<open>KeyError\<close>, \<open>TypeError\<close>, \<open>IndexError\<close>, \<open>NameError\<close>, \<open>OverflowError\<close> and \<open>ValueError\<close>
  are the interpreter's own.
\<close>

datatype error =
    DataLengthError
  | UnknownAestheticError string
  | MissingAestheticError string "string set"
  | UnresolvedScaleError
  | KeyError string
  | TypeError
  | IndexError
  | NameError string
  | OverflowError
  | ValueError

section \<open>Stats: \<open>stats/stat.py\<close>\<close>

text \<open>
  An aesthetic mapping is a dictionary from aesthetic names to values. A value is a string
  (\<open>isinstance(col, six.string_types)\<close>: a column reference, or a computed-aesthetic
  placeholder), a list-like constant (\<open>com.is_list_like(col)\<close>), or anything else.
\<close>

datatype aes_value = StrValue string | ListLike "val list" | OtherValue val

type_synonym aes = "(string \<times> aes_value) list"

text \<open>
  The fields of a stat object that the pipeline reads: the class name, the class
  attributes \<open>REQUIRED_AES\<close> and \<open>DEFAULT_AES\<close>, \<open>retransform\<close>, and the instance's
  \<open>params\<close>.
\<close>

record stat =
  class_name :: string
  REQUIRED_AES :: "string set"
  DEFAULT_AES :: aes
  retransform :: bool
  params :: "(string \<times> val) list"

subsection \<open>Warnings\<close>

text \<open>
  \<open>_warnings_printed\<close> is an attribute of the class \<open>stat\<close>, created once when the module
  is loaded and mutated in place by \<open>_print_warning\<close> through whatever instance calls it:
  one set for the process. The process state seen by \<open>_print_warning\<close> is that set and the
  sequence of strings written to the standard error.
\<close>

record process =
  stderr :: "string list"
  warnings_printed :: "string set"

definition process_start :: process where
  "process_start = \<lparr>stderr = [], warnings_printed = {}\<rparr>"

definition print_warning :: "stat \<Rightarrow> string \<Rightarrow> process \<Rightarrow> process" where
  "print_warning self message p =
     (if message \<notin> warnings_printed p
      then p\<lparr>stderr := stderr p @ [message],
             warnings_printed := insert message (warnings_printed p)\<rparr>
      else p)"

text \<open>A sequence of calls, each by some stat instance with some message.\<close>

fun print_warnings :: "(stat \<times> string) list \<Rightarrow> process \<Rightarrow> process" where
  "print_warnings [] p = p"
| "print_warnings ((self, message) # calls) p = print_warnings calls (print_warning self message p)"

section \<open>Layers: \<open>layer.py\<close>\<close>

record layer =
  mapping :: aes
  inherit_aes :: bool
  stat :: stat

text \<open>
  The plot as a layer sees it: its mapping and its scale set. The class \<open>Scales\<close> is not
  part of the sources at hand, so the scale set is a type parameter.
\<close>

record 'sc plot =
  plot_mapping :: aes
  plot_scales :: 'sc

subsection \<open>\<open>layer.compute_aesthetics\<close>, the classification loop (lines 82 to 98)\<close>

text \<open>
  The loop over \<open>aesthetics.items()\<close> carries \<open>colnames\<close>, \<open>aenames\<close> and the dictionary
  \<open>settings\<close>, and stops at the first \<open>raise\<close>.
\<close>

type_synonym resolved = "string list \<times> string list \<times> (string \<times> val list) list"

fun compute_aesthetics_loop :: "table \<Rightarrow> aes \<Rightarrow> resolved \<Rightarrow> error + resolved" where
  "compute_aesthetics_loop data [] acc = Inr acc"
| "compute_aesthetics_loop data ((ae, col) # rest) (colnames, aenames, settings) =
     (case col of
        StrValue c \<Rightarrow>
          compute_aesthetics_loop data rest (colnames @ [c], aenames @ [ae], settings)
      | ListLike xs \<Rightarrow>
          if length xs \<noteq> nrows data \<or> length xs \<noteq> 1 then Inl DataLengthError
          else compute_aesthetics_loop data rest
                 (colnames, aenames, AList.update ae xs settings)
      | OtherValue v \<Rightarrow> Inl (UnknownAestheticError ae))"

subsection \<open>\<open>layer.calc_statistic\<close>\<close>

text \<open>
  Modelled from the spec: \<open>check_required_aesthetics\<close> of \<open>ggplot.utils\<close> is called by
  \<open>calc_statistic\<close> but is not part of the sources at hand. The spec (4.4) says that every
  required aesthetic must be among the names present, and that the failure names the stat
  and the missing aesthetics; \<open>stat._verify_aesthetics\<close> below, which is in the sources,
  does the same for the columns alone.
\<close>

definition check_required_aesthetics :: "string set \<Rightarrow> string list \<Rightarrow> string \<Rightarrow> error + unit" where
  "check_required_aesthetics required present name =
     (let missing_aes = required - set present
      in if missing_aes \<noteq> {} then Inl (MissingAestheticError name missing_aes) else Inr ())"

definition verify_aesthetics :: "stat \<Rightarrow> table \<Rightarrow> error + unit" where
  "verify_aesthetics self data =
     (let missing_aes = REQUIRED_AES self - set (map fst (columns data))
      in if missing_aes \<noteq> {} then Inl (MissingAestheticError (class_name self) missing_aes)
         else Inr ())"

text \<open>
  \<open>stat._calculate_groups\<close> is implemented outside the sources at hand: it is the
  parameter \<open>calculate_groups\<close>, a computation that may fail and may change the rest of the
  program state \<open>'w\<close> (the scales, the standard error, the stat's caches).
\<close>

definition calc_statistic ::
  "layer \<Rightarrow> (stat \<Rightarrow> table \<Rightarrow> 'sc \<Rightarrow> 'w \<Rightarrow> (error + table) \<times> 'w)
     \<Rightarrow> table \<Rightarrow> 'sc \<Rightarrow> 'w \<Rightarrow> (error + table) \<times> 'w" where
  "calc_statistic self calculate_groups data scales w =
     (if nrows data = 0 then (Inr DataFrame, w)
      else
        case check_required_aesthetics (REQUIRED_AES (stat self))
               (map fst (columns data) @ map fst (params (stat self)))
               (class_name (stat self)) of
          Inl e \<Rightarrow> (Inl e, w)
        | Inr _ \<Rightarrow> calculate_groups (stat self) data scales w)"

text \<open>
  A transform to run \<open>calc_statistic\<close> with: it returns its rows as they are and counts
  its invocations in the state.
\<close>

definition counting_transform :: "stat \<Rightarrow> table \<Rightarrow> unit \<Rightarrow> nat \<Rightarrow> (error + table) \<times> nat" where
  "counting_transform st data scales w = (Inr data, Suc w)"

subsection \<open>\<open>layer.map_statistic\<close>\<close>

text \<open>
  Modelled from the spec: \<open>defaults\<close> of \<open>ggplot.utils\<close> and \<open>is_calculated_aes\<close> of
  \<open>ggplot.components.aes\<close> are not part of the sources at hand. The spec (3, 4.1, 4.4) says
  that the first mapping is merged over the second and wins on conflict, and that a
  computed aesthetic is one whose value is a placeholder wrapped in dots, as in
  \<open>..count..\<close>, naming the column that the stat produces.
\<close>

definition defaults :: "aes \<Rightarrow> aes \<Rightarrow> aes" where
  "defaults d1 d2 = d1 @ filter (\<lambda>(k, v). k \<notin> fst ` set d1) d2"

fun is_calculated :: "aes_value \<Rightarrow> bool" where
  "is_calculated (StrValue s) =
     (4 < length s \<and> take 2 s = ''..'' \<and> drop (length s - 2) s = ''..'')"
| "is_calculated _ = False"

definition is_calculated_aes :: "aes \<Rightarrow> string list" where
  "is_calculated_aes aesthetics = map fst (filter (\<lambda>(k, v). is_calculated v) aesthetics)"

text \<open>The aesthetics assembled from the layer, the plot and the stat (lines 135 to 139).\<close>

definition map_statistic_aesthetics :: "layer \<Rightarrow> 'sc plot \<Rightarrow> aes" where
  "map_statistic_aesthetics self plot =
     (let aesthetics = mapping self;
          aesthetics = (if inherit_aes self then defaults aesthetics (plot_mapping plot)
                        else aesthetics)
      in defaults aesthetics (DEFAULT_AES (stat self)))"

text \<open>
  The loop over the computed aesthetics (lines 145 to 149) is to fill the dictionary \<open>new\<close>
  and the frame \<open>stat_data\<close>. Its first statement calls \<open>strip_dots\<close>, a name that
  \<open>layer.py\<close> neither imports nor defines: looking the name up raises \<open>NameError\<close> before
  anything else of the statement is evaluated, so the loop ends there for every computed
  aesthetic, and only the empty loop comes through.
\<close>

fun map_statistic_loop ::
  "aes \<Rightarrow> table \<Rightarrow> string list \<Rightarrow> (string \<times> string) list \<times> table
     \<Rightarrow> error + (string \<times> string) list \<times> table" where
  "map_statistic_loop aesthetics data [] acc = Inr acc"
| "map_statistic_loop aesthetics data (ae # rest) (new, stat_data) = Inl (NameError ''strip_dots'')"

text \<open>\<open>pd.concat([data, stat_data], axis=1)\<close>: the columns of both, side by side.\<close>

definition concat_columns :: "table \<Rightarrow> table \<Rightarrow> table" where
  "concat_columns data stat_data = data\<lparr>columns := columns data @ columns stat_data\<rparr>"

text \<open>
  \<open>scales_add_defaults\<close> belongs to the scale set and is a parameter: it returns the scale
  set with the scales added. \<open>map_statistic\<close> returns its result and the plot's scale set.
\<close>

definition map_statistic ::
  "layer \<Rightarrow> ('sc \<Rightarrow> table \<Rightarrow> (string \<times> string) list \<Rightarrow> 'sc) \<Rightarrow> table \<Rightarrow> 'sc plot
     \<Rightarrow> (error + table) \<times> 'sc" where
  "map_statistic self scales_add_defaults data plot =
     (if nrows data = 0 then (Inr DataFrame, plot_scales plot)
      else
        case map_statistic_loop (map_statistic_aesthetics self plot) data
               (is_calculated_aes (map_statistic_aesthetics self plot)) ([], DataFrame) of
          Inl e \<Rightarrow> (Inl e, plot_scales plot)
        | Inr (new, stat_data) \<Rightarrow>
            if new = [] then (Inr data, plot_scales plot)
            else (Inr (concat_columns data stat_data),
                  scales_add_defaults (plot_scales plot) data new))"

text \<open>A scale set that already holds every scale: adding defaults leaves it as it is.\<close>

definition scales_complete :: "unit \<Rightarrow> table \<Rightarrow> (string \<times> string) list \<Rightarrow> unit" where
  "scales_complete sc data new = sc"

subsection \<open>\<open>add_group\<close> and \<open>discrete_columns\<close>\<close>

definition discrete_columns :: "table \<Rightarrow> string list \<Rightarrow> string list" where
  "discrete_columns df ignore =
     map fst (filter (\<lambda>(col, s). dtype s \<in> discrete_dtypes \<and> col \<notin> set ignore) (columns df))"

text \<open>
  Modelled from the spec: \<open>ninteraction\<close> of \<open>ggplot.utils\<close> is not part of the sources at
  hand. The spec (4.2) calls it the dense enumeration of the unique combinations of the
  columns' values, dropping unused combinations: a row's id is one plus the position of
  its combination among the distinct combinations, so that the ids are \<open>1..k\<close> for \<open>k\<close>
  distinct combinations. The order of the enumeration is left open by the spec.
\<close>

fun index_of :: "'a list \<Rightarrow> 'a \<Rightarrow> nat" where
  "index_of [] x = 0"
| "index_of (y # ys) x = (if x = y then 0 else Suc (index_of ys x))"

definition cell :: "val list \<Rightarrow> nat \<Rightarrow> val" where
  "cell c i = (if i < length c then c ! i else NA)"

definition combinations :: "nat \<Rightarrow> val list list \<Rightarrow> val list list" where
  "combinations n cols = map (\<lambda>i. map (\<lambda>c. cell c i) cols) [0..<n]"

definition ninteraction :: "nat \<Rightarrow> val list list \<Rightarrow> series" where
  "ninteraction n cols =
     (let rows = combinations n cols; u = remdups rows
      in \<lparr>dtype = Int64, vals = map (\<lambda>r. IntVal (1 + int (index_of u r))) rows\<rparr>)"

text \<open>\<open>data[names]\<close>, the cells of the named columns.\<close>

definition select_columns :: "table \<Rightarrow> string list \<Rightarrow> val list list" where
  "select_columns data names = List.map_filter (\<lambda>n. map_option vals (get_column data n)) names"

definition add_group :: "table \<Rightarrow> table" where
  "add_group data =
     (if nrows data = 0 then data
      else if \<not> has_column data ''group'' then
        (let disc = discrete_columns data [''label'']
         in if disc \<noteq> [] then
              set_column data ''group'' (ninteraction (nrows data) (select_columns data disc))
            else
              set_column data ''group'' \<lparr>dtype = Int64, vals = replicate (nrows data) (IntVal 1)\<rparr>)
      else
        set_column data ''group''
          (ninteraction (nrows data) (select_columns data [''group''])))"

section \<open>Position scales: \<open>scales/scale_xy.py\<close>\<close>

text \<open>
  A discrete position scale keeps the user's \<open>_limits\<close> (the field \<open>scale_limits\<close>), the
  trained discrete \<open>range\<close> (the ordered levels, the field \<open>scale_range\<close>) and the
  secondary continuous range \<open>range_c\<close> (a minimum and a maximum); each is \<open>None\<close> until
  it is set. The two ends of \<open>range_c\<close> are floats: finite, infinite or \<open>NaN\<close>.
\<close>

datatype float64 = Finite real | PosInf | NegInf | NaN

record scale =
  scale_limits :: "val list option"
  scale_range :: "val list option"
  range_c :: "(float64 \<times> float64) option"

text \<open>Python's truth value of an optional list: \<open>None\<close> and \<open>[]\<close> are false.\<close>

fun truthy :: "'a list option \<Rightarrow> bool" where
  "truthy None = False"
| "truthy (Some xs) = (xs \<noteq> [])"

text \<open>
  Modelled from the spec: the methods \<open>train\<close> of \<open>scale_continuous\<close> and of
  \<open>scale_discrete\<close> (\<open>scales/scale.py\<close>) are not part of the sources at hand. The spec (4.3)
  says that a continuous scale extends the (min, max) pair of its \<open>range\<close> by the numeric
  minimum and maximum of the series, ignoring missing values, and that a discrete scale
  extends the ordered set of levels in its \<open>range\<close> by the levels it observes.
\<close>

fun nums :: "val list \<Rightarrow> float64 list" where
  "nums [] = []"
| "nums (IntVal i # xs) = Finite (real_of_int i) # nums xs"
| "nums (NumVal r # xs) = Finite r # nums xs"
| "nums (PosInfVal # xs) = PosInf # nums xs"
| "nums (NegInfVal # xs) = NegInf # nums xs"
| "nums (_ # xs) = nums xs"

text \<open>\<open>np.min\<close> and \<open>np.max\<close> of two floats; \<open>NaN\<close> wins over everything.\<close>

fun fmin :: "float64 \<Rightarrow> float64 \<Rightarrow> float64" where
  "fmin NaN y = NaN"
| "fmin x NaN = NaN"
| "fmin NegInf y = NegInf"
| "fmin x NegInf = NegInf"
| "fmin PosInf y = y"
| "fmin x PosInf = x"
| "fmin (Finite a) (Finite b) = Finite (min a b)"

fun fmax :: "float64 \<Rightarrow> float64 \<Rightarrow> float64" where
  "fmax NaN y = NaN"
| "fmax x NaN = NaN"
| "fmax PosInf y = PosInf"
| "fmax x PosInf = PosInf"
| "fmax NegInf y = y"
| "fmax x NegInf = x"
| "fmax (Finite a) (Finite b) = Finite (max a b)"

definition scale_continuous_train ::
  "(float64 \<times> float64) option \<Rightarrow> series \<Rightarrow> (float64 \<times> float64) option" where
  "scale_continuous_train rng series =
     (case nums (vals series) of
        [] \<Rightarrow> rng
      | x # xs \<Rightarrow>
          (case rng of
             None \<Rightarrow> Some (fold fmin xs x, fold fmax xs x)
           | Some (mn, mx) \<Rightarrow> Some (fmin mn (fold fmin xs x), fmax mx (fold fmax xs x))))"

definition levels :: "scale \<Rightarrow> val list" where
  "levels self = (case scale_range self of None \<Rightarrow> [] | Some ls \<Rightarrow> ls)"

definition scale_discrete_train :: "scale \<Rightarrow> series \<Rightarrow> scale" where
  "scale_discrete_train self series =
     (let old = levels self
      in self\<lparr>scale_range := Some (old @ remdups (filter (\<lambda>x. x \<notin> set old) (vals series)))\<rparr>)"

text \<open>
  \<open>scale_position_discrete.train\<close>. For a continuous series the code saves \<open>range\<close> in
  \<open>backup\<close>, lets the continuous training (bound as \<open>train_continuous\<close> at line 95) work on
  \<open>range_c\<close> under the name \<open>range\<close>, stores what it leaves there in \<open>range_c\<close> and puts
  \<open>backup\<close> back.
\<close>

definition scale_position_discrete_train :: "scale \<Rightarrow> series \<Rightarrow> scale" where
  "scale_position_discrete_train self series =
     (if dtype series \<in> continuous_dtypes then
        (let backup = scale_range self;
             trained = scale_continuous_train (range_c self) series
         in self\<lparr>range_c := trained, scale_range := backup\<rparr>)
      else scale_discrete_train self series)"

text \<open>
  \<open>int(np.floor(x))\<close> and \<open>int(np.ceil(x))\<close>: \<open>int\<close> of an infinite float raises
  \<open>OverflowError\<close>, \<open>int\<close> of \<open>NaN\<close> raises \<open>ValueError\<close>.
\<close>

fun int_floor :: "float64 \<Rightarrow> error + int" where
  "int_floor (Finite r) = Inr \<lfloor>r\<rfloor>"
| "int_floor PosInf = Inl OverflowError"
| "int_floor NegInf = Inl OverflowError"
| "int_floor NaN = Inl ValueError"

fun int_ceil :: "float64 \<Rightarrow> error + int" where
  "int_ceil (Finite r) = Inr \<lceil>r\<rceil>"
| "int_ceil PosInf = Inl OverflowError"
| "int_ceil NegInf = Inl OverflowError"
| "int_ceil NaN = Inl ValueError"

text \<open>
  The property \<open>limits\<close>. In the last branch the code builds a \<open>GgplotError\<close> and drops it:
  there is no \<open>raise\<close>, so the property falls off its end and returns \<open>None\<close>.
\<close>

definition limits :: "scale \<Rightarrow> error + val list option" where
  "limits self =
     (if truthy (scale_limits self) then Inr (scale_limits self)
      else if truthy (scale_range self) then Inr (scale_range self)
      else
        case range_c self of
          Some (a, b) \<Rightarrow>
            (case int_floor (fmin a b) of
               Inl e \<Rightarrow> Inl e
             | Inr mn \<Rightarrow>
                 (case int_ceil (fmax a b) of
                    Inl e \<Rightarrow> Inl e
                  | Inr mx \<Rightarrow> Inr (Some (map IntVal [mn..mx]))))
        | None \<Rightarrow> Inr None)"

text \<open>
  Modelled from the spec: \<open>match\<close> of \<open>ggplot.utils\<close> is not part of the sources at hand.
  The spec (4.3) codes a discrete value by its position within the limits: for a value
  among them \<open>match\<close> gives that position, counted from 0 (line 57 numbers the codes from
  1). What \<open>match\<close> gives for a value that is not among the limits is stated nowhere: it is
  the parameter \<open>nomatch\<close>.
\<close>

definition match :: "int \<Rightarrow> val list \<Rightarrow> val list \<Rightarrow> int list" where
  "match nomatch v1 v2 = map (\<lambda>x. if x \<in> set v2 then int (index_of v2 x) else nomatch) v1"

text \<open>
  \<open>seq[idx]\<close> for an integer array \<open>seq\<close> of length \<open>n\<close>: every index must lie in
  \<open>-n..n-1\<close>, a negative one counting from the end; one index outside raises \<open>IndexError\<close>
  for the whole expression. The result holds elements of \<open>seq\<close> and nothing else.
\<close>

definition take_positions :: "int list \<Rightarrow> int list \<Rightarrow> error + val list" where
  "take_positions seq idx =
     (if list_all (\<lambda>i. - int (length seq) \<le> i \<and> i < int (length seq)) idx
      then Inr (map (\<lambda>i. IntVal (seq ! nat (if i < 0 then int (length seq) + i else i))) idx)
      else Inl IndexError)"

text \<open>
  \<open>scale_position_discrete.map\<close>. Lines 54 and 55 read the scale's own limits when the
  argument is \<open>None\<close> or empty; \<open>len(limits)\<close> of \<open>None\<close> is a \<open>TypeError\<close>.
\<close>

definition scale_position_discrete_map ::
  "int \<Rightarrow> scale \<Rightarrow> series \<Rightarrow> val list option \<Rightarrow> error + series" where
  "scale_position_discrete_map nomatch self series limits_arg =
     (case (if \<not> truthy limits_arg then limits self else Inr limits_arg) of
        Inl e \<Rightarrow> Inl e
      | Inr lims \<Rightarrow>
          if dtype series \<in> discrete_dtypes then
            (case lims of
               None \<Rightarrow> Inl TypeError
             | Some ls \<Rightarrow>
                 (let seq = map int [1..<length ls + 1]
                  in case take_positions seq (match nomatch (vals series) ls) of
                       Inl e \<Rightarrow> Inl e
                     | Inr codes \<Rightarrow> Inr \<lparr>dtype = Int64, vals = codes\<rparr>))
          else Inr series)"

section \<open>Warning deduplication\<close>

lemma print_warnings_append:
  "print_warnings (xs @ ys) p = print_warnings ys (print_warnings xs p)"
  by (induction xs arbitrary: p) auto

lemma print_warning_printed:
  "warnings_printed (print_warning self m p) = insert m (warnings_printed p)"
  by (auto simp: print_warning_def)

lemma print_warnings_printed:
  "warnings_printed (print_warnings calls p) = warnings_printed p \<union> snd ` set calls"
proof (induction calls arbitrary: p)
  case Nil
  then show ?case by simp
next
  case (Cons c calls)
  obtain self m where c: "c = (self, m)" by (cases c)
  show ?case
    unfolding c print_warnings.simps Cons.IH print_warning_printed by auto
qed

lemma print_warning_inv:
  assumes "set (stderr p) = warnings_printed p" and "distinct (stderr p)"
  shows "set (stderr (print_warning self m p)) = warnings_printed (print_warning self m p)
         \<and> distinct (stderr (print_warning self m p))"
  using assms by (auto simp: print_warning_def)

lemma print_warnings_inv:
  assumes "set (stderr p) = warnings_printed p" and "distinct (stderr p)"
  shows "set (stderr (print_warnings calls p)) = warnings_printed (print_warnings calls p)
         \<and> distinct (stderr (print_warnings calls p))"
  using assms
proof (induction calls arbitrary: p)
  case Nil
  then show ?case by simp
next
  case (Cons c calls)
  obtain self m where c: "c = (self, m)" by (cases c)
  from print_warning_inv [OF Cons.prems] Cons.IH [of "print_warning self m p"]
  show ?case by (simp add: c)
qed

lemma count_list_distinct_le: "distinct xs \<Longrightarrow> count_list xs x \<le> Suc 0"
  by (induction xs) (auto simp: count_list_0_iff)

text \<open>
  C9. From the start of the process and after any sequence of \<open>_print_warning\<close> calls by
  any stat instances, every message has been written to the standard error at most once;
  a further call with a message that was already passed writes nothing, and a call with a
  message never passed before appends exactly that message.
\<close>

theorem print_warning_dedup:
  "count_list (stderr (print_warnings calls process_start)) m \<le> 1
   \<and> (m \<in> snd ` set calls \<longrightarrow>
        stderr (print_warning self m (print_warnings calls process_start))
          = stderr (print_warnings calls process_start))
   \<and> (m \<notin> snd ` set calls \<longrightarrow>
        stderr (print_warning self m (print_warnings calls process_start))
          = stderr (print_warnings calls process_start) @ [m])"
proof -
  have "distinct (stderr (print_warnings calls process_start))"
    using print_warnings_inv [of process_start calls] by (simp add: process_start_def)
  then have "count_list (stderr (print_warnings calls process_start)) m \<le> 1"
    using count_list_distinct_le [of "stderr (print_warnings calls process_start)" m] by simp
  moreover have "warnings_printed (print_warnings calls process_start) = snd ` set calls"
    by (simp add: print_warnings_printed process_start_def)
  ultimately show ?thesis by (simp add: print_warning_def)
qed

theorem print_warning_dedup_witness:
  "stderr (print_warnings
      [(\<lparr>class_name = ''stat_bin'', REQUIRED_AES = {''x''}, DEFAULT_AES = [],
         retransform = False, params = []\<rparr>, ''binwidth defaulted''),
       (\<lparr>class_name = ''stat_sum'', REQUIRED_AES = {}, DEFAULT_AES = [],
         retransform = False, params = []\<rparr>, ''binwidth defaulted'')] process_start)
   = [''binwidth defaulted'']
   \<and> count_list (stderr (print_warnings
      [(\<lparr>class_name = ''stat_bin'', REQUIRED_AES = {''x''}, DEFAULT_AES = [],
         retransform = False, params = []\<rparr>, ''binwidth defaulted''),
       (\<lparr>class_name = ''stat_sum'', REQUIRED_AES = {}, DEFAULT_AES = [],
         retransform = False, params = []\<rparr>, ''binwidth defaulted'')] process_start))
      ''binwidth defaulted'' \<le> 1"
  using print_warning_dedup
    [of "[(\<lparr>class_name = ''stat_bin'', REQUIRED_AES = {''x''}, DEFAULT_AES = [],
            retransform = False, params = []\<rparr>, ''binwidth defaulted''),
          (\<lparr>class_name = ''stat_sum'', REQUIRED_AES = {}, DEFAULT_AES = [],
            retransform = False, params = []\<rparr>, ''binwidth defaulted'')]"
        "''binwidth defaulted''"]
  by (simp add: print_warning_def process_start_def)

section \<open>Constant aesthetics in \<open>compute_aesthetics\<close>\<close>

text \<open>
  What the loop does with a single list-like constant: it is kept as a setting only when
  its length and the row count are both one.
\<close>

lemma compute_aesthetics_loop_constant:
  "compute_aesthetics_loop data [(ae, ListLike xs)] ([], [], []) =
     (if length xs = 1 \<and> nrows data = 1 then Inr ([], [], [(ae, xs)]) else Inl DataLengthError)"
  by auto

text \<open>
  C1. The spec asks that a constant whose length is one, or the row count, be accepted and
  kept as a setting, and that only other lengths be refused. The test at line 91,
  \<open>n != len(data) or n != 1\<close>, is true unless both lengths are one: on a table of three
  rows the mapping \<open>aes(x='a', color=['red'])\<close>, with a constant of length one, and the
  mapping with a constant of length three are both refused with the length error.
\<close>

theorem compute_aesthetics_rejects_constants:
  "compute_aesthetics_loop
     \<lparr>nrows = 3, columns = [(''a'', \<lparr>dtype = Float64, vals = [NumVal 1, NumVal 2, NumVal 3]\<rparr>)]\<rparr>
     [(''x'', StrValue ''a''), (''color'', ListLike [StrVal ''red''])] ([], [], [])
   = Inl DataLengthError
   \<and> compute_aesthetics_loop
     \<lparr>nrows = 3, columns = [(''a'', \<lparr>dtype = Float64, vals = [NumVal 1, NumVal 2, NumVal 3]\<rparr>)]\<rparr>
     [(''x'', StrValue ''a''),
      (''color'', ListLike [StrVal ''red'', StrVal ''green'', StrVal ''blue''])] ([], [], [])
   = Inl DataLengthError"
  by simp

section \<open>Limits of a discrete position scale\<close>

text \<open>
  The property by cases: it raises only when it has to compute the limits from a
  continuous range with an end that is not finite.
\<close>

lemma limits_cases:
  "limits self =
     (if truthy (scale_limits self) then Inr (scale_limits self)
      else if truthy (scale_range self) then Inr (scale_range self)
      else case range_c self of
             None \<Rightarrow> Inr None
           | Some (Finite a, Finite b) \<Rightarrow> Inr (Some (map IntVal [\<lfloor>min a b\<rfloor>..\<lceil>max a b\<rceil>]))
           | Some (a, b) \<Rightarrow> Inl (if a = NaN \<or> b = NaN then ValueError else OverflowError))"
proof (cases "range_c self")
  case None
  then show ?thesis by (simp add: limits_def)
next
  case (Some ab)
  obtain a b where ab: "ab = (a, b)" by (cases ab)
  show ?thesis
    unfolding limits_def Some ab
    by (cases a; cases b) simp_all
qed

text \<open>
  C2. The spec asks that requesting the limits of a scale with no user limits, an empty
  discrete range and no continuous range fail with the unresolved-scale error. The last
  branch of the property builds the error and does not raise it: the request returns
  \<open>None\<close>, whether the discrete range is the empty list or was never set.
\<close>

theorem limits_unresolved_returns_None:
  "limits \<lparr>scale_limits = None, scale_range = Some [], range_c = None\<rparr> = Inr None
   \<and> limits \<lparr>scale_limits = None, scale_range = None, range_c = None\<rparr> = Inr None"
  by (simp add: limits_def)

section \<open>\<open>calc_statistic\<close>\<close>

text \<open>
  C3. On a table with no rows \<open>calc_statistic\<close> returns the empty frame and leaves the
  program state as it was, whatever the stat's required aesthetics and whatever its
  transform would do: neither the check nor the transform runs.
\<close>

theorem calc_statistic_empty:
  "nrows data = 0 \<Longrightarrow> calc_statistic self calculate_groups data scales w = (Inr DataFrame, w)"
  by (simp add: calc_statistic_def)

theorem calc_statistic_empty_witness:
  "calc_statistic
     \<lparr>mapping = [], inherit_aes = False,
      stat = \<lparr>class_name = ''stat_bin'', REQUIRED_AES = {''x''}, DEFAULT_AES = [],
              retransform = False, params = []\<rparr>\<rparr>
     counting_transform
     \<lparr>nrows = 0, columns = [(''y'', \<lparr>dtype = Float64, vals = []\<rparr>)]\<rparr> () 0
   = (Inr DataFrame, 0)"
  using calc_statistic_empty
    [of "\<lparr>nrows = 0, columns = [(''y'', \<lparr>dtype = Float64, vals = []\<rparr>)]\<rparr>"
        "\<lparr>mapping = [], inherit_aes = False,
          stat = \<lparr>class_name = ''stat_bin'', REQUIRED_AES = {''x''}, DEFAULT_AES = [],
                  retransform = False, params = []\<rparr>\<rparr>"
        counting_transform "()" "0::nat"]
  by simp

text \<open>
  \<open>stat._verify_aesthetics\<close> is the check of \<open>calc_statistic\<close> with the columns as the only
  names present.
\<close>

lemma verify_aesthetics_check:
  "verify_aesthetics self data
   = check_required_aesthetics (REQUIRED_AES self) (map fst (columns data)) (class_name self)"
  by (simp add: verify_aesthetics_def check_required_aesthetics_def)

text \<open>
  C4. On a table with at least one row, when some required aesthetic of the stat is neither
  a column of the data nor the name of a stat parameter, \<open>calc_statistic\<close> fails with the
  missing-aesthetic error that carries the stat's class name and exactly the missing
  aesthetics, and the transform does not run; when every required aesthetic is present,
  the result is that of the per-group computation.
\<close>

theorem calc_statistic_required:
  assumes "0 < nrows data"
  shows "((\<exists>a \<in> REQUIRED_AES (stat self).
             a \<notin> fst ` set (columns data) \<and> a \<notin> fst ` set (params (stat self))) \<longrightarrow>
          calc_statistic self calculate_groups data scales w =
            (Inl (MissingAestheticError (class_name (stat self))
                   (REQUIRED_AES (stat self)
                      - (fst ` set (columns data) \<union> fst ` set (params (stat self))))), w))
       \<and> ((\<forall>a \<in> REQUIRED_AES (stat self).
             a \<in> fst ` set (columns data) \<or> a \<in> fst ` set (params (stat self))) \<longrightarrow>
          calc_statistic self calculate_groups data scales w =
            calculate_groups (stat self) data scales w)"
proof -
  have eq: "REQUIRED_AES (stat self)
              - set (map fst (columns data) @ map fst (params (stat self)))
            = REQUIRED_AES (stat self)
                - (fst ` set (columns data) \<union> fst ` set (params (stat self)))"
    by simp
  show ?thesis
    using assms unfolding calc_statistic_def check_required_aesthetics_def Let_def eq
    by auto
qed

theorem calc_statistic_required_witness:
  "calc_statistic
     \<lparr>mapping = [], inherit_aes = False,
      stat = \<lparr>class_name = ''stat_sum'', REQUIRED_AES = {''x'', ''weight''}, DEFAULT_AES = [],
              retransform = False, params = []\<rparr>\<rparr>
     counting_transform
     \<lparr>nrows = 1, columns = [(''x'', \<lparr>dtype = Float64, vals = [NumVal 1]\<rparr>)]\<rparr> () 0
   = (Inl (MissingAestheticError ''stat_sum'' {''weight''}), 0)
   \<and> calc_statistic
     \<lparr>mapping = [], inherit_aes = False,
      stat = \<lparr>class_name = ''stat_sum'', REQUIRED_AES = {''x'', ''weight''}, DEFAULT_AES = [],
              retransform = False, params = [(''weight'', NumVal 1)]\<rparr>\<rparr>
     counting_transform
     \<lparr>nrows = 1, columns = [(''x'', \<lparr>dtype = Float64, vals = [NumVal 1]\<rparr>)]\<rparr> () 0
   = (Inr \<lparr>nrows = 1, columns = [(''x'', \<lparr>dtype = Float64, vals = [NumVal 1]\<rparr>)]\<rparr>, 1)"
  using calc_statistic_required
    [of "\<lparr>nrows = 1, columns = [(''x'', \<lparr>dtype = Float64, vals = [NumVal 1]\<rparr>)]\<rparr>"
        "\<lparr>mapping = [], inherit_aes = False,
          stat = \<lparr>class_name = ''stat_sum'', REQUIRED_AES = {''x'', ''weight''}, DEFAULT_AES = [],
                  retransform = False, params = []\<rparr>\<rparr>"
        counting_transform "()" "0::nat"]
    calc_statistic_required
    [of "\<lparr>nrows = 1, columns = [(''x'', \<lparr>dtype = Float64, vals = [NumVal 1]\<rparr>)]\<rparr>"
        "\<lparr>mapping = [], inherit_aes = False,
          stat = \<lparr>class_name = ''stat_sum'', REQUIRED_AES = {''x'', ''weight''}, DEFAULT_AES = [],
                  retransform = False, params = [(''weight'', NumVal 1)]\<rparr>\<rparr>"
        counting_transform "()" "0::nat"]
  by (simp add: counting_transform_def)

section \<open>\<open>map_statistic\<close>\<close>

text \<open>
  With a computed aesthetic among the assembled aesthetics and at least one row, the call
  ends in the \<open>NameError\<close> of the loop.
\<close>

lemma map_statistic_computed_raises:
  assumes "0 < nrows data" and "is_calculated_aes (map_statistic_aesthetics self plot) \<noteq> []"
  shows "map_statistic self scales_add_defaults data plot
         = (Inl (NameError ''strip_dots''), plot_scales plot)"
proof -
  obtain ae rest where "is_calculated_aes (map_statistic_aesthetics self plot) = ae # rest"
    using assms(2) by (cases "is_calculated_aes (map_statistic_aesthetics self plot)") auto
  then show ?thesis
    using assms(1) by (simp add: map_statistic_def)
qed

text \<open>
  C8, as the code has it. A table with no rows comes back as a new empty frame, with no
  column, whatever the mappings are. On a table with at least one row, when the
  aesthetics that \<open>map_statistic\<close> assembles hold no computed aesthetic, it returns its
  input as it is and leaves the plot's scale set alone. The aesthetics assembled are the
  layer's mapping, merged over the plot's mapping when \<open>inherit_aes\<close> is set, and then
  merged over the stat's \<open>DEFAULT_AES\<close> (lines 135 to 139).
\<close>

theorem map_statistic_identity:
  "(nrows data = 0 \<longrightarrow>
      map_statistic self scales_add_defaults data plot = (Inr DataFrame, plot_scales plot))
   \<and> (0 < nrows data \<longrightarrow>
      is_calculated_aes
        (defaults (if inherit_aes self then defaults (mapping self) (plot_mapping plot)
                   else mapping self)
           (DEFAULT_AES (stat self))) = [] \<longrightarrow>
      map_statistic self scales_add_defaults data plot = (Inr data, plot_scales plot))"
  by (simp add: map_statistic_def map_statistic_aesthetics_def Let_def)

theorem map_statistic_identity_witness:
  "map_statistic
      \<lparr>mapping = [(''x'', StrValue ''a'')], inherit_aes = True,
       stat = \<lparr>class_name = ''stat_identity'', REQUIRED_AES = {}, DEFAULT_AES = [],
               retransform = False, params = []\<rparr>\<rparr>
      scales_complete
      \<lparr>nrows = 2, columns = [(''x'', \<lparr>dtype = Float64, vals = [NumVal 1, NumVal 2]\<rparr>)]\<rparr>
      \<lparr>plot_mapping = [(''y'', StrValue ''b'')], plot_scales = ()\<rparr>
   = (Inr \<lparr>nrows = 2, columns = [(''x'', \<lparr>dtype = Float64, vals = [NumVal 1, NumVal 2]\<rparr>)]\<rparr>, ())
   \<and> map_statistic
      \<lparr>mapping = [(''y'', StrValue ''..count..'')], inherit_aes = True,
       stat = \<lparr>class_name = ''stat_bin'', REQUIRED_AES = {}, DEFAULT_AES = [],
               retransform = False, params = []\<rparr>\<rparr>
      scales_complete
      \<lparr>nrows = 0, columns = [(''x'', \<lparr>dtype = Float64, vals = []\<rparr>)]\<rparr>
      \<lparr>plot_mapping = [(''x'', StrValue ''a'')], plot_scales = ()\<rparr>
   = (Inr DataFrame, ())"
  using map_statistic_identity
    [of "\<lparr>nrows = 2, columns = [(''x'', \<lparr>dtype = Float64, vals = [NumVal 1, NumVal 2]\<rparr>)]\<rparr>"
        "\<lparr>mapping = [(''x'', StrValue ''a'')], inherit_aes = True,
          stat = \<lparr>class_name = ''stat_identity'', REQUIRED_AES = {}, DEFAULT_AES = [],
                  retransform = False, params = []\<rparr>\<rparr>"
        scales_complete
        "\<lparr>plot_mapping = [(''y'', StrValue ''b'')], plot_scales = ()\<rparr>"]
    map_statistic_identity
    [of "\<lparr>nrows = 0, columns = [(''x'', \<lparr>dtype = Float64, vals = []\<rparr>)]\<rparr>"
        "\<lparr>mapping = [(''y'', StrValue ''..count..'')], inherit_aes = True,
          stat = \<lparr>class_name = ''stat_bin'', REQUIRED_AES = {}, DEFAULT_AES = [],
                  retransform = False, params = []\<rparr>\<rparr>"
        scales_complete
        "\<lparr>plot_mapping = [(''x'', StrValue ''a'')], plot_scales = ()\<rparr>"]
  by (simp add: is_calculated_aes_def defaults_def)

text \<open>
  Two inputs on which the layer's own mapping holds no computed aesthetic and the input
  does not come back. The guard at line 131 comes first: a table with a column \<open>x\<close> and
  no rows comes back as the empty frame, which has no column. And line 139 merges the
  stat's defaults in: with the default \<open>y = ..count..\<close> a table of one row does not come
  back either.
\<close>

theorem map_statistic_empty_counterexample:
  "is_calculated_aes [(''x'', StrValue ''a'')] = []
   \<and> fst (map_statistic
      \<lparr>mapping = [(''x'', StrValue ''a'')], inherit_aes = False,
       stat = \<lparr>class_name = ''stat_identity'', REQUIRED_AES = {}, DEFAULT_AES = [],
               retransform = False, params = []\<rparr>\<rparr>
      scales_complete
      \<lparr>nrows = 0, columns = [(''x'', \<lparr>dtype = Float64, vals = []\<rparr>)]\<rparr>
      \<lparr>plot_mapping = [], plot_scales = ()\<rparr>)
     \<noteq> Inr \<lparr>nrows = 0, columns = [(''x'', \<lparr>dtype = Float64, vals = []\<rparr>)]\<rparr>
   \<and> fst (map_statistic
      \<lparr>mapping = [(''x'', StrValue ''a'')], inherit_aes = False,
       stat = \<lparr>class_name = ''stat_bin'', REQUIRED_AES = {},
               DEFAULT_AES = [(''y'', StrValue ''..count..'')],
               retransform = False, params = []\<rparr>\<rparr>
      scales_complete
      \<lparr>nrows = 1, columns = [(''x'', \<lparr>dtype = Float64, vals = [NumVal 1]\<rparr>),
                              (''count'', \<lparr>dtype = Int64, vals = [IntVal 1]\<rparr>)]\<rparr>
      \<lparr>plot_mapping = [], plot_scales = ()\<rparr>)
     \<noteq> Inr \<lparr>nrows = 1, columns = [(''x'', \<lparr>dtype = Float64, vals = [NumVal 1]\<rparr>),
                                  (''count'', \<lparr>dtype = Int64, vals = [IntVal 1]\<rparr>)]\<rparr>"
  by (simp add: map_statistic_def map_statistic_aesthetics_def is_calculated_aes_def
      defaults_def DataFrame_def)

section \<open>Mapping with a discrete position scale\<close>

text \<open>
  C10, as the code has it. The mapping reads the scale's limits before it looks at the
  dtype whenever the limits argument is \<open>None\<close> or empty. A series whose dtype is not
  discrete comes back as it is when the limits argument is given and not empty, or the
  scale has user limits, or a discrete range that is not empty, or a continuous range that
  is absent or has two finite ends. When none of these holds, the limits have to be
  computed from a continuous range with an end that is infinite or \<open>NaN\<close>, and the call
  raises: \<open>ValueError\<close> when an end is \<open>NaN\<close>, \<open>OverflowError\<close> otherwise.
\<close>

theorem map_continuous_identity:
  assumes "dtype series \<notin> discrete_dtypes"
  shows "(truthy limits_arg \<or> truthy (scale_limits self) \<or> truthy (scale_range self)
            \<or> range_c self = None \<or> (\<exists>a b. range_c self = Some (Finite a, Finite b)) \<longrightarrow>
          scale_position_discrete_map nomatch self series limits_arg = Inr series)
       \<and> (\<not> truthy limits_arg \<and> \<not> truthy (scale_limits self) \<and> \<not> truthy (scale_range self)
            \<and> range_c self = Some (a, b) \<and> (\<forall>x y. (a, b) \<noteq> (Finite x, Finite y)) \<longrightarrow>
          scale_position_discrete_map nomatch self series limits_arg
            = Inl (if a = NaN \<or> b = NaN then ValueError else OverflowError))"
proof (intro conjI impI)
  assume "truthy limits_arg \<or> truthy (scale_limits self) \<or> truthy (scale_range self)
            \<or> range_c self = None \<or> (\<exists>a b. range_c self = Some (Finite a, Finite b))"
  then show "scale_position_discrete_map nomatch self series limits_arg = Inr series"
    using assms unfolding scale_position_discrete_map_def limits_cases
    by auto
next
  assume h: "\<not> truthy limits_arg \<and> \<not> truthy (scale_limits self) \<and> \<not> truthy (scale_range self)
            \<and> range_c self = Some (a, b) \<and> (\<forall>x y. (a, b) \<noteq> (Finite x, Finite y))"
  then have "limits self = Inl (if a = NaN \<or> b = NaN then ValueError else OverflowError)"
    unfolding limits_cases by (cases a; cases b) simp_all
  then show "scale_position_discrete_map nomatch self series limits_arg
            = Inl (if a = NaN \<or> b = NaN then ValueError else OverflowError)"
    using h unfolding scale_position_discrete_map_def by simp
qed

theorem map_continuous_identity_witness:
  "scale_position_discrete_map (- 1)
     \<lparr>scale_limits = None, scale_range = Some [StrVal ''a'', StrVal ''b''], range_c = None\<rparr>
     \<lparr>dtype = Float64, vals = [NumVal (3 / 2), NumVal 2]\<rparr> None
   = Inr \<lparr>dtype = Float64, vals = [NumVal (3 / 2), NumVal 2]\<rparr>
   \<and> scale_position_discrete_map (- 1)
     \<lparr>scale_limits = None, scale_range = None, range_c = Some (Finite 1, PosInf)\<rparr>
     \<lparr>dtype = Float64, vals = [NumVal (3 / 2), NumVal 2]\<rparr> (Some [StrVal ''a''])
   = Inr \<lparr>dtype = Float64, vals = [NumVal (3 / 2), NumVal 2]\<rparr>
   \<and> scale_position_discrete_map (- 1)
     \<lparr>scale_limits = None, scale_range = None, range_c = Some (Finite 1, NaN)\<rparr>
     \<lparr>dtype = Float64, vals = [NumVal (3 / 2), NumVal 2]\<rparr> None
   = Inl ValueError"
  using map_continuous_identity
    [of "\<lparr>dtype = Float64, vals = [NumVal (3 / 2), NumVal 2]\<rparr>" None
        "\<lparr>scale_limits = None, scale_range = Some [StrVal ''a'', StrVal ''b''], range_c = None\<rparr>"
        "- 1"]
    map_continuous_identity
    [of "\<lparr>dtype = Float64, vals = [NumVal (3 / 2), NumVal 2]\<rparr>" "Some [StrVal ''a'']"
        "\<lparr>scale_limits = None, scale_range = None, range_c = Some (Finite 1, PosInf)\<rparr>"
        "- 1"]
    map_continuous_identity
    [of "\<lparr>dtype = Float64, vals = [NumVal (3 / 2), NumVal 2]\<rparr>" None
        "\<lparr>scale_limits = None, scale_range = None, range_c = Some (Finite 1, NaN)\<rparr>"
        "- 1" "Finite 1" NaN]
  by (simp add: discrete_dtypes_def)

text \<open>
  A scale with nothing set, trained with a continuous series that holds an infinite value,
  has the continuous range \<open>(1, inf)\<close>; mapping that series with no limits given raises
  \<open>OverflowError\<close> where the series was to come back.
\<close>

theorem map_continuous_inf_counterexample:
  "dtype \<lparr>dtype = Float64, vals = [NumVal 1, PosInfVal]\<rparr> \<notin> discrete_dtypes
   \<and> scale_position_discrete_train
       \<lparr>scale_limits = None, scale_range = None, range_c = None\<rparr>
       \<lparr>dtype = Float64, vals = [NumVal 1, PosInfVal]\<rparr>
     = \<lparr>scale_limits = None, scale_range = None, range_c = Some (Finite 1, PosInf)\<rparr>
   \<and> scale_position_discrete_map (- 1)
       \<lparr>scale_limits = None, scale_range = None, range_c = Some (Finite 1, PosInf)\<rparr>
       \<lparr>dtype = Float64, vals = [NumVal 1, PosInfVal]\<rparr> None
     = Inl OverflowError"
  by (simp add: discrete_dtypes_def continuous_dtypes_def scale_position_discrete_train_def
      scale_continuous_train_def scale_position_discrete_map_def limits_def)

section \<open>Positions in a list\<close>


lemma nth_index_of: "x \<in> set xs \<Longrightarrow> xs ! index_of xs x = x"
  by (induction xs) auto


lemma index_of_inj:
  assumes "x \<in> set xs" and "y \<in> set xs" and "index_of xs x = index_of xs y"
  shows "x = y"
proof -
  have "x = xs ! index_of xs x" by (rule nth_index_of [OF assms(1), symmetric])
  also have "\<dots> = xs ! index_of xs y" by (simp only: assms(3))
  also have "\<dots> = y" by (rule nth_index_of [OF assms(2)])
  finally show ?thesis .
qed

section \<open>Grouping\<close>

lemma length_combinations: "length (combinations n cols) = n"
  by (simp add: combinations_def)

lemma ninteraction_length: "length (vals (ninteraction n cols)) = n"
  by (simp add: ninteraction_def Let_def length_combinations)

text \<open>Two rows get the same id exactly when their combinations of values are the same.\<close>

lemma ninteraction_partition:
  assumes "i < n" and "j < n"
  shows "(vals (ninteraction n cols) ! i = vals (ninteraction n cols) ! j)
         = (combinations n cols ! i = combinations n cols ! j)"
proof -
  let ?rows = "combinations n cols"
  have i: "?rows ! i \<in> set (remdups ?rows)" and j: "?rows ! j \<in> set (remdups ?rows)"
    using assms by (simp_all add: length_combinations)
  have "(index_of (remdups ?rows) (?rows ! i) = index_of (remdups ?rows) (?rows ! j))
        = (?rows ! i = ?rows ! j)"
    using index_of_inj [OF i j] by auto
  then show ?thesis
    using assms by (simp add: ninteraction_def Let_def length_combinations)
qed

lemma combinations_single:
  assumes "i < n" and "length c = n"
  shows "combinations n [c] ! i = [c ! i]"
  using assms by (simp add: combinations_def cell_def)

lemma ninteraction_single_partition:
  assumes "i < n" and "j < n" and "length c = n"
  shows "(vals (ninteraction n [c]) ! i = vals (ninteraction n [c]) ! j) = (c ! i = c ! j)"
  using ninteraction_partition [OF assms(1,2), of "[c]"]
    combinations_single [OF assms(1,3)] combinations_single [OF assms(2,3)]
  by simp

lemma get_set_column: "get_column (set_column data name col) name = Some col"
  by (simp add: get_column_def set_column_def update_conv')

lemma has_set_column: "has_column (set_column data name col) name"
  by (simp add: has_column_def set_column_def dom_update)

lemma nrows_set_column: "nrows (set_column data name col) = nrows data"
  by (simp add: set_column_def)

lemma select_set_column: "select_columns (set_column data name col) [name] = [vals col]"
  by (simp add: select_columns_def get_set_column List.map_filter_simps)

text \<open>A table that has its group column gets it renumbered.\<close>

lemma add_group_regroup:
  assumes "0 < nrows data"
  shows "add_group (set_column data ''group'' g)
         = set_column (set_column data ''group'' g) ''group'' (ninteraction (nrows data) [vals g])"
  using assms
  by (simp add: add_group_def has_set_column nrows_set_column select_set_column)

text \<open>On a table with rows every branch of \<open>add_group\<close> sets a group column of full length.\<close>

lemma add_group_sets:
  assumes "0 < nrows data"
  shows "\<exists>g. add_group data = set_column data ''group'' g \<and> length (vals g) = nrows data"
  using assms by (auto simp: add_group_def Let_def ninteraction_length)

text \<open>
  C5. Applying \<open>add_group\<close> twice induces the same partition of the rows as applying it
  once. A table with no rows comes back as it is both times. On a table with rows, both
  results have a group column with one id per row, and two rows have the same id after
  the second application exactly when they have the same id after the first.
\<close>

theorem add_group_idempotent:
  "(nrows data = 0 \<longrightarrow> add_group (add_group data) = add_group data)
   \<and> (0 < nrows data \<longrightarrow>
        (\<exists>g1 g2. get_column (add_group data) ''group'' = Some g1
           \<and> get_column (add_group (add_group data)) ''group'' = Some g2
           \<and> length (vals g1) = nrows data \<and> length (vals g2) = nrows data
           \<and> (\<forall>i < nrows data. \<forall>j < nrows data.
                 (vals g2 ! i = vals g2 ! j) = (vals g1 ! i = vals g1 ! j))))"
proof (intro conjI impI)
  assume "nrows data = 0"
  then show "add_group (add_group data) = add_group data"
    by (simp add: add_group_def)
next
  assume pos: "0 < nrows data"
  from add_group_sets [OF pos] obtain g1
    where g1: "add_group data = set_column data ''group'' g1"
      and len1: "length (vals g1) = nrows data"
    by blast
  let ?g2 = "ninteraction (nrows data) [vals g1]"
  have twice: "add_group (add_group data)
               = set_column (set_column data ''group'' g1) ''group'' ?g2"
    unfolding g1 by (rule add_group_regroup [OF pos])
  have "get_column (add_group data) ''group'' = Some g1"
    unfolding g1 by (rule get_set_column)
  moreover have "get_column (add_group (add_group data)) ''group'' = Some ?g2"
    unfolding twice by (rule get_set_column)
  moreover have "length (vals ?g2) = nrows data"
    by (rule ninteraction_length)
  moreover have "\<forall>i < nrows data. \<forall>j < nrows data.
      (vals ?g2 ! i = vals ?g2 ! j) = (vals g1 ! i = vals g1 ! j)"
    using ninteraction_single_partition [OF _ _ len1] by blast
  ultimately show "\<exists>g1 g2. get_column (add_group data) ''group'' = Some g1
           \<and> get_column (add_group (add_group data)) ''group'' = Some g2
           \<and> length (vals g1) = nrows data \<and> length (vals g2) = nrows data
           \<and> (\<forall>i < nrows data. \<forall>j < nrows data.
                 (vals g2 ! i = vals g2 ! j) = (vals g1 ! i = vals g1 ! j))"
    using len1 by blast
qed

theorem add_group_idempotent_witness:
  "get_column (add_group
      \<lparr>nrows = 3,
       columns = [(''x'', \<lparr>dtype = Float64, vals = [NumVal 1, NumVal 2, NumVal 3]\<rparr>),
                  (''color'', \<lparr>dtype = Object,
                                vals = [StrVal ''red'', StrVal ''blue'', StrVal ''red'']\<rparr>)]\<rparr>)
      ''group''
    = Some \<lparr>dtype = Int64, vals = [IntVal 2, IntVal 1, IntVal 2]\<rparr>
   \<and> get_column (add_group (add_group
      \<lparr>nrows = 3,
       columns = [(''x'', \<lparr>dtype = Float64, vals = [NumVal 1, NumVal 2, NumVal 3]\<rparr>),
                  (''color'', \<lparr>dtype = Object,
                                vals = [StrVal ''red'', StrVal ''blue'', StrVal ''red'']\<rparr>)]\<rparr>))
      ''group''
    = Some \<lparr>dtype = Int64, vals = [IntVal 2, IntVal 1, IntVal 2]\<rparr>"
proof -
  let ?t = "\<lparr>nrows = 3,
       columns = [(''x'', \<lparr>dtype = Float64, vals = [NumVal 1, NumVal 2, NumVal 3]\<rparr>),
                  (''color'', \<lparr>dtype = Object,
                                vals = [StrVal ''red'', StrVal ''blue'', StrVal ''red'']\<rparr>)]\<rparr>"
  have once: "get_column (add_group ?t) ''group''
              = Some \<lparr>dtype = Int64, vals = [IntVal 2, IntVal 1, IntVal 2]\<rparr>"
    by code_simp
  have twice: "get_column (add_group (add_group ?t)) ''group''
               = Some \<lparr>dtype = Int64, vals = [IntVal 2, IntVal 1, IntVal 2]\<rparr>"
    by code_simp
  show ?thesis
    using add_group_idempotent [of ?t] once twice by simp
qed

section \<open>Training a discrete position scale\<close>

text \<open>
  C6. Training a discrete position scale with a series of continuous dtype changes its
  continuous range \<open>range_c\<close> and nothing else: the discrete range is what it was. Training
  it with a series of discrete dtype leaves \<open>range_c\<close> and the user limits as they were and
  extends the discrete range: the old levels stay in front, and the levels are then the
  old ones together with the values of the series.
\<close>

theorem train_routing:
  "(dtype series \<in> continuous_dtypes \<longrightarrow>
      scale_position_discrete_train self series
        = self\<lparr>range_c := scale_continuous_train (range_c self) series\<rparr>
      \<and> scale_range (scale_position_discrete_train self series) = scale_range self)
   \<and> (dtype series \<in> discrete_dtypes \<longrightarrow>
      range_c (scale_position_discrete_train self series) = range_c self
      \<and> scale_limits (scale_position_discrete_train self series) = scale_limits self
      \<and> (\<exists>new. scale_range (scale_position_discrete_train self series) = Some (levels self @ new)
            \<and> set (levels self @ new) = set (levels self) \<union> set (vals series)))"
proof (intro conjI impI)
  assume c: "dtype series \<in> continuous_dtypes"
  then show "scale_position_discrete_train self series
        = self\<lparr>range_c := scale_continuous_train (range_c self) series\<rparr>"
    by (simp add: scale_position_discrete_train_def Let_def)
  from c show "scale_range (scale_position_discrete_train self series) = scale_range self"
    by (simp add: scale_position_discrete_train_def Let_def)
next
  assume "dtype series \<in> discrete_dtypes"
  then have d: "dtype series \<notin> continuous_dtypes"
    by (auto simp: discrete_dtypes_def continuous_dtypes_def)
  then show "range_c (scale_position_discrete_train self series) = range_c self"
    by (simp add: scale_position_discrete_train_def scale_discrete_train_def Let_def)
  from d show "scale_limits (scale_position_discrete_train self series) = scale_limits self"
    by (simp add: scale_position_discrete_train_def scale_discrete_train_def Let_def)
  let ?new = "remdups (filter (\<lambda>x. x \<notin> set (levels self)) (vals series))"
  have "scale_range (scale_position_discrete_train self series) = Some (levels self @ ?new)"
    using d by (simp add: scale_position_discrete_train_def scale_discrete_train_def Let_def)
  moreover have "set (levels self @ ?new) = set (levels self) \<union> set (vals series)"
    by auto
  ultimately show "\<exists>new. scale_range (scale_position_discrete_train self series)
                      = Some (levels self @ new)
            \<and> set (levels self @ new) = set (levels self) \<union> set (vals series)"
    by blast
qed

theorem train_routing_witness:
  "scale_position_discrete_train
     \<lparr>scale_limits = None, scale_range = Some [StrVal ''a''], range_c = None\<rparr>
     \<lparr>dtype = Float64, vals = [NumVal (3 / 2), NA, NumVal (1 / 2)]\<rparr>
   = \<lparr>scale_limits = None, scale_range = Some [StrVal ''a''], range_c = Some (Finite (1 / 2), Finite (3 / 2))\<rparr>
   \<and> range_c (scale_position_discrete_train
     \<lparr>scale_limits = None, scale_range = Some [StrVal ''a''], range_c = Some (Finite (1 / 2), Finite (3 / 2))\<rparr>
     \<lparr>dtype = Object, vals = [StrVal ''b'', StrVal ''a'', StrVal ''b'']\<rparr>)
   = Some (Finite (1 / 2), Finite (3 / 2))
   \<and> scale_range (scale_position_discrete_train
     \<lparr>scale_limits = None, scale_range = Some [StrVal ''a''], range_c = Some (Finite (1 / 2), Finite (3 / 2))\<rparr>
     \<lparr>dtype = Object, vals = [StrVal ''b'', StrVal ''a'', StrVal ''b'']\<rparr>)
   = Some [StrVal ''a'', StrVal ''b'']"
proof -
  have "scale_range (scale_position_discrete_train
     \<lparr>scale_limits = None, scale_range = Some [StrVal ''a''], range_c = Some (Finite (1 / 2), Finite (3 / 2))\<rparr>
     \<lparr>dtype = Object, vals = [StrVal ''b'', StrVal ''a'', StrVal ''b'']\<rparr>)
   = Some [StrVal ''a'', StrVal ''b'']"
    by (simp add: scale_position_discrete_train_def continuous_dtypes_def
        scale_discrete_train_def levels_def)
  then show ?thesis
    using train_routing
      [of "\<lparr>dtype = Float64, vals = [NumVal (3 / 2), NA, NumVal (1 / 2)]\<rparr>"
          "\<lparr>scale_limits = None, scale_range = Some [StrVal ''a''], range_c = None\<rparr>"]
      train_routing
      [of "\<lparr>dtype = Object, vals = [StrVal ''b'', StrVal ''a'', StrVal ''b'']\<rparr>"
          "\<lparr>scale_limits = None, scale_range = Some [StrVal ''a''],
            range_c = Some (Finite (1 / 2), Finite (3 / 2))\<rparr>"]
    by (simp add: continuous_dtypes_def discrete_dtypes_def scale_continuous_train_def)
qed

section \<open>Codes of a discrete series\<close>








end
